theory Spec2Isabelle
  imports Main "HOL-Library.Multiset"
begin

section \<open>Python values\<close>

text \<open>
  The handlers of \<^verbatim>\<open>app.py\<close> work on dynamically typed values: the parsed JSON body of a
  request, the parsed JSON body of the completion endpoint's response, and the strings of a
  submitted form. A JSON value is modelled as Python's \<^verbatim>\<open>json\<close> module reads it: \<^verbatim>\<open>None\<close>,
  \<^verbatim>\<open>bool\<close>, \<^verbatim>\<open>int\<close>, \<^verbatim>\<open>str\<close>, \<^verbatim>\<open>list\<close> and \<^verbatim>\<open>dict\<close> (the items of the dict in an
  association list, looked up by key). Numbers with a fraction or an exponent (Python
  \<^verbatim>\<open>float\<close>) are left out of the model. A \<^verbatim>\<open>str\<close> is a list of characters with code points
  below 256.
\<close>

datatype json =
    JNull
  | JBool bool
  | JInt int
  | JStr string
  | JArr "json list"
  | JObj "(string \<times> json) list"

text \<open>\<^verbatim>\<open>not v\<close>: Python's truth test, negated.\<close>

fun py_not :: "json \<Rightarrow> bool" where
  "py_not JNull = True"
| "py_not (JBool b) = (b = False)"
| "py_not (JInt n) = (n = 0)"
| "py_not (JStr s) = (s = [])"
| "py_not (JArr xs) = (xs = [])"
| "py_not (JObj kvs) = (kvs = [])"

text \<open>\<^verbatim>\<open>a or b\<close>: the first operand when it is true, the second otherwise.\<close>

definition py_or :: "json \<Rightarrow> json \<Rightarrow> json" where
  "py_or a b = (if py_not a then b else a)"

fun type_name :: "json \<Rightarrow> string" where
  "type_name JNull = ''NoneType''"
| "type_name (JBool b) = ''bool''"
| "type_name (JInt n) = ''int''"
| "type_name (JStr s) = ''str''"
| "type_name (JArr xs) = ''list''"
| "type_name (JObj kvs) = ''dict''"

text \<open>
  The exceptions the handlers can meet before the storage layer. Each carries the text that
  \<^verbatim>\<open>str(e)\<close> gives, since \<^verbatim>\<open>api_send_message\<close> puts that text into its reply. \<open>RequestFailed\<close>
  stands for whatever \<^verbatim>\<open>requests\<close> raises; its text is the library's.
\<close>

datatype exn =
    AttributeError string
  | TypeError string
  | IndexError string
  | KeyError string
  | RequestFailed string

fun str_exn :: "exn \<Rightarrow> string" where
  "str_exn (AttributeError m) = m"
| "str_exn (TypeError m) = m"
| "str_exn (IndexError m) = m"
| "str_exn (KeyError m) = m"
| "str_exn (RequestFailed m) = m"

definition quoted :: "string \<Rightarrow> string" where
  "quoted s = CHR 0x27 # s @ [CHR 0x27]"

definition no_attribute :: "json \<Rightarrow> string \<Rightarrow> exn" where
  "no_attribute v a = AttributeError (quoted (type_name v) @ '' object has no attribute '' @ quoted a)"

text \<open>\<^verbatim>\<open>v.get(k, d)\<close>: a dict answers; any other value has no such method.\<close>

fun py_get :: "json \<Rightarrow> string \<Rightarrow> json \<Rightarrow> exn + json" where
  "py_get (JObj kvs) k d = Inr (case map_of kvs k of None \<Rightarrow> d | Some v \<Rightarrow> v)"
| "py_get v k d = Inl (no_attribute v ''get'')"

text \<open>
  \<^verbatim>\<open>v[0]\<close>: the first element of a list or the first character of a string; a dict is asked
  for the key \<open>0\<close>, which a parsed JSON object (string keys only) never has.
\<close>

fun py_item0 :: "json \<Rightarrow> exn + json" where
  "py_item0 (JArr []) = Inl (IndexError ''list index out of range'')"
| "py_item0 (JArr (x # xs)) = Inr x"
| "py_item0 (JStr []) = Inl (IndexError ''string index out of range'')"
| "py_item0 (JStr (c # cs)) = Inr (JStr [c])"
| "py_item0 (JObj kvs) = Inl (KeyError ''0'')"
| "py_item0 v = Inl (TypeError (quoted (type_name v) @ '' object is not subscriptable''))"

text \<open>
  \<^verbatim>\<open>str.strip()\<close> removes leading and trailing whitespace, the characters on which
  \<^verbatim>\<open>str.isspace\<close> holds; below code point 256 these are 9 to 13, 28 to 32, 133 and 160.
\<close>

definition isspace :: "char \<Rightarrow> bool" where
  "isspace c = ((of_char c :: nat) \<in> {9, 10, 11, 12, 13, 28, 29, 30, 31, 32, 133, 160})"

definition strip :: "string \<Rightarrow> string" where
  "strip s = rev (dropWhile isspace (rev (dropWhile isspace s)))"

fun py_strip :: "json \<Rightarrow> exn + string" where
  "py_strip (JStr s) = Inr (strip s)"
| "py_strip v = Inl (no_attribute v ''strip'')"

section \<open>Storage\<close>

text \<open>
  A value held in a column. The Python driver binds \<^verbatim>\<open>None\<close> as NULL, an \<^verbatim>\<open>int\<close> (and a
  \<^verbatim>\<open>bool\<close>, which is an \<^verbatim>\<open>int\<close>) as INTEGER when it fits 64 bits, a \<^verbatim>\<open>str\<close> as TEXT, and
  raises on a \<^verbatim>\<open>list\<close>, a \<^verbatim>\<open>dict\<close> or an \<^verbatim>\<open>int\<close> out of range (\<open>None\<close> below).
\<close>

datatype sqlval = SNull | SInt int | SText string

fun bind_param :: "json \<Rightarrow> sqlval option" where
  "bind_param JNull = Some SNull"
| "bind_param (JBool b) = Some (SInt (if b then 1 else 0))"
| "bind_param (JInt n) = (if - (2 ^ 63) \<le> n \<and> n < 2 ^ 63 then Some (SInt n) else None)"
| "bind_param (JStr s) = Some (SText s)"
| "bind_param (JArr xs) = None"
| "bind_param (JObj kvs) = None"

text \<open>What a query hands back to Python for a stored value.\<close>

fun py_of_sql :: "sqlval \<Rightarrow> json" where
  "py_of_sql SNull = JNull"
| "py_of_sql (SInt n) = JInt n"
| "py_of_sql (SText s) = JStr s"

text \<open>
  Column affinity. A TEXT column stores an integer as its decimal text. An INTEGER column
  stores a text as a number when the engine reads it as a numeric literal; that reading
  belongs to the engine and is a parameter \<open>numeric\<close> of the model (a text that the engine
  would turn into a REAL is outside the model).
\<close>

fun dec_nat :: "nat \<Rightarrow> string" where
  "dec_nat n = (if n < 10 then [char_of (48 + n)] else dec_nat (n div 10) @ [char_of (48 + n mod 10)])"

definition dec_int :: "int \<Rightarrow> string" where
  "dec_int i = (if i < 0 then CHR ''-'' # dec_nat (nat (- i)) else dec_nat (nat i))"

fun text_affinity :: "sqlval \<Rightarrow> sqlval" where
  "text_affinity (SInt n) = SText (dec_int n)"
| "text_affinity v = v"

fun integer_affinity :: "(string \<Rightarrow> sqlval) \<Rightarrow> sqlval \<Rightarrow> sqlval" where
  "integer_affinity numeric (SText s) = numeric s"
| "integer_affinity numeric v = v"

text \<open>
  The engine's reading of a text as an integer, for the scenarios below: a decimal
  integer literal within 64 bits, with an optional sign and surrounding white space, is
  the integer; any other text is left as it is. (The engine reads more texts as numbers:
  those with a fraction, an exponent or too many digits become a REAL, outside the model.)
\<close>

definition sqlite_space :: "char \<Rightarrow> bool" where
  "sqlite_space c = ((of_char c :: nat) \<in> {9, 10, 11, 12, 13, 32})"

definition decimal_digit :: "char \<Rightarrow> bool" where
  "decimal_digit c = (48 \<le> (of_char c :: nat) \<and> (of_char c :: nat) \<le> 57)"

definition digits_value :: "string \<Rightarrow> int" where
  "digits_value ds = foldl (\<lambda>n c. 10 * n + (int (of_char c) - 48)) 0 ds"

definition integer_literal :: "string \<Rightarrow> sqlval" where
  "integer_literal s =
     (let t = rev (dropWhile sqlite_space (rev (dropWhile sqlite_space s)));
          signed = (case t of c # r \<Rightarrow> c = CHR ''-'' \<or> c = CHR ''+'' | [] \<Rightarrow> False);
          ds = (if signed then tl t else t);
          v = (if signed \<and> hd t = CHR ''-'' then - digits_value ds else digits_value ds)
      in if ds \<noteq> [] \<and> list_all decimal_digit ds \<and> - (2 ^ 63) \<le> v \<and> v < 2 ^ 63
         then SInt v else SText s)"

text \<open>\<open>a = b\<close> in a WHERE clause: never true of NULL.\<close>

definition sql_eq :: "sqlval \<Rightarrow> sqlval \<Rightarrow> bool" where
  "sql_eq a b = (a \<noteq> SNull \<and> b \<noteq> SNull \<and> a = b)"

text \<open>
  The two tables of \<^verbatim>\<open>init_db\<close>. \<open>created_at\<close> is the engine's clock reading at the insert
  (\<^verbatim>\<open>CURRENT_TIMESTAMP\<close>, whole seconds), here a number of seconds. The identifiers are
  \<^verbatim>\<open>AUTOINCREMENT\<close> keys: one more than the table's counter, rows being never deleted.
  The engine checks no foreign key: a connection opened by \<^verbatim>\<open>sqlite3.connect\<close> leaves
  \<^verbatim>\<open>PRAGMA foreign_keys\<close> off and \<^verbatim>\<open>get_db\<close> does not turn it on. Storage faults (a missing
  table, a full disk) are not modelled.
\<close>

record patient =
  p_id :: int
  p_name :: string
  p_age :: sqlval
  p_gender :: sqlval
  p_phone :: sqlval
  p_created_at :: nat

record chat_row =
  c_id :: int
  c_patient_id :: sqlval
  c_role :: sqlval
  c_content :: sqlval
  c_created_at :: nat

record db =
  patients :: "patient list"
  patients_seq :: int
  chats :: "chat_row list"
  chats_seq :: int

definition empty_db :: db where
  "empty_db = \<lparr>patients = [], patients_seq = 0, chats = [], chats_seq = 0\<rparr>"

definition insert_patient :: "db \<Rightarrow> nat \<Rightarrow> string \<Rightarrow> sqlval \<Rightarrow> sqlval \<Rightarrow> sqlval \<Rightarrow> db" where
  "insert_patient d now nm ag ge ph =
     d\<lparr>patients := patients d @
          [\<lparr>p_id = patients_seq d + 1, p_name = nm, p_age = ag, p_gender = ge, p_phone = ph,
            p_created_at = now\<rparr>],
       patients_seq := patients_seq d + 1\<rparr>"

definition insert_chat :: "db \<Rightarrow> nat \<Rightarrow> sqlval \<Rightarrow> string \<Rightarrow> sqlval \<Rightarrow> db" where
  "insert_chat d now pid rl txt =
     d\<lparr>chats := chats d @
          [\<lparr>c_id = chats_seq d + 1, c_patient_id = pid, c_role = SText rl, c_content = txt,
            c_created_at = now\<rparr>],
       chats_seq := chats_seq d + 1\<rparr>"

text \<open>
  \<^verbatim>\<open>SELECT ... FROM chats WHERE patient_id = ? ORDER BY created_at ASC\<close>. Rows with equal
  \<open>created_at\<close> keep their table order (\<open>sort_key\<close> is stable); the statements below that
  speak of order hold for every tie-break or say which clock they assume.
\<close>

definition chats_of :: "db \<Rightarrow> sqlval \<Rightarrow> chat_row list" where
  "chats_of d pid = filter (\<lambda>r. sql_eq (c_patient_id r) pid) (chats d)"

definition chats_by_created_at :: "db \<Rightarrow> sqlval \<Rightarrow> chat_row list" where
  "chats_by_created_at d pid = sort_key c_created_at (chats_of d pid)"

section \<open>The routes\<close>

datatype http_method = GET | POST

datatype response =
    Login_page "string option"
  | Redirect_dashboard int
  | Dashboard_page patient
  | Chat_page patient "(sqlval \<times> sqlval \<times> nat) list"
  | Patient_not_found
  | Reply json
  | Invalid_input
  | Internal_server_error

text \<open>
  The process environment: \<open>GROQ_API_KEY\<close> as the module computed it at import, and the
  engine's reading of a text as a number (see \<open>integer_affinity\<close>).
\<close>

record env =
  api_key :: "string option"
  numeric :: "string \<Rightarrow> sqlval"

text \<open>\<^verbatim>\<open>os.getenv("GROQ_API_KEY") or os.getenv("OPENAI_API_KEY")\<close>\<close>

definition GROQ_API_KEY :: "string option \<Rightarrow> string option \<Rightarrow> string option" where
  "GROQ_API_KEY groq openai = (if groq = None \<or> groq = Some [] then openai else groq)"

subsection \<open>login\<close>

text \<open>\<^verbatim>\<open>request.form.get(k, "").strip()\<close> and \<^verbatim>\<open>... or None\<close>\<close>

definition form_get :: "(string \<times> string) list \<Rightarrow> string \<Rightarrow> string" where
  "form_get form k = strip (case map_of form k of None \<Rightarrow> [] | Some v \<Rightarrow> v)"

definition or_None :: "string \<Rightarrow> sqlval" where
  "or_None s = (if s = [] then SNull else SText s)"

definition login :: "env \<Rightarrow> nat \<Rightarrow> db \<Rightarrow> http_method \<Rightarrow> (string \<times> string) list \<Rightarrow> response \<times> db" where
  "login e now d method form =
     (if method = POST then
        let name = form_get form ''name'';
            age = or_None (form_get form ''age'');
            gender = or_None (form_get form ''gender'');
            phone = or_None (form_get form ''phone'')
        in if name = [] then (Login_page (Some ''Name is required''), d)
           else (Redirect_dashboard (patients_seq d + 1),
                 insert_patient d now name (integer_affinity (numeric e) age) gender phone)
      else (Login_page None, d))"

subsection \<open>dashboard and chat\<close>

text \<open>The URL converter \<^verbatim>\<open><int:patient_id>\<close> hands the views an integer.\<close>

definition dashboard :: "db \<Rightarrow> int \<Rightarrow> response" where
  "dashboard d patient_id =
     (case find (\<lambda>p. p_id p = patient_id) (patients d) of
        None \<Rightarrow> Patient_not_found
      | Some p \<Rightarrow> Dashboard_page p)"

definition history_entry :: "chat_row \<Rightarrow> sqlval \<times> sqlval \<times> nat" where
  "history_entry r = (c_role r, c_content r, c_created_at r)"

definition chat :: "db \<Rightarrow> int \<Rightarrow> response" where
  "chat d patient_id =
     (case find (\<lambda>p. p_id p = patient_id) (patients d) of
        None \<Rightarrow> Patient_not_found
      | Some p \<Rightarrow> Chat_page p (map history_entry (chats_by_created_at d (SInt patient_id))))"

subsection \<open>api_send_message\<close>

record message =
  role :: string
  content :: json

definition system_msg :: message where
  "system_msg =
     \<lparr>role = ''system'',
      content = JStr (''You are a helpful medical assistant. Provide general information and safe suggestions. '' @
        ''Do NOT give definitive diagnoses. If symptoms sound urgent or dangerous, advise the user to seek immediate professional care.'')\<rparr>"

definition row_message :: "chat_row \<Rightarrow> message" where
  "row_message r =
     \<lparr>role = (if c_role r = SText ''user'' then ''user'' else ''assistant''),
      content = py_of_sql (c_content r)\<rparr>"

text \<open>
  Lines 114 to 129: the rows of the patient, ordered by \<open>created_at\<close> ascending and cut
  by \<^verbatim>\<open>LIMIT 40\<close>, between the system message and the current user message. The handler
  runs the query on the store that already holds the current user message (line 110).
\<close>

definition conversation :: "db \<Rightarrow> sqlval \<Rightarrow> string \<Rightarrow> message list" where
  "conversation d pid user_message =
     (let rows = take 40 (chats_by_created_at d pid)
      in system_msg # map row_message rows @ [\<lparr>role = ''user'', content = JStr user_message\<rparr>])"

text \<open>
  What the three calls on \<^verbatim>\<open>requests\<close> in the \<^verbatim>\<open>try\<close> block come to: \<^verbatim>\<open>requests.post\<close>
  raises (no connection, the 30 second timeout), \<^verbatim>\<open>resp.raise_for_status()\<close> raises (an error
  status), \<^verbatim>\<open>resp.json()\<close> raises (the body is not JSON), or the body is parsed. The
  string is the exception's \<^verbatim>\<open>str(e)\<close>.
\<close>

datatype exchange =
    Post_raised string
  | Status_raised string
  | Json_raised string
  | Parsed json

text \<open>
  How lines 146 to 148 come to one of these, given what the network hands back: no
  response at all (\<^verbatim>\<open>requests.post\<close> raises, with the text given), or a response with
  its status code, the text of the \<^verbatim>\<open>HTTPError\<close> that \<^verbatim>\<open>raise_for_status\<close> builds for
  it, and its body. \<^verbatim>\<open>raise_for_status\<close> is the library's: it raises on a status from 400
  to 599 and on no other.
\<close>

datatype http_body = Not_json string | Json json

datatype http_result = No_response string | Response nat string http_body

definition error_status :: "nat \<Rightarrow> bool" where
  "error_status st = (400 \<le> st \<and> st < 600)"

definition requests_calls :: "http_result \<Rightarrow> exchange" where
  "requests_calls h =
     (case h of
        No_response m \<Rightarrow> Post_raised m
      | Response st err b \<Rightarrow>
          if error_status st then Status_raised err
          else (case b of Not_json m \<Rightarrow> Json_raised m | Json j \<Rightarrow> Parsed j))"

text \<open>\<^verbatim>\<open>j.get("choices", [{}])[0]\<close>\<close>

definition first_choice :: "json \<Rightarrow> exn + json" where
  "first_choice j =
     (case py_get j ''choices'' (JArr [JObj []]) of
        Inl x \<Rightarrow> Inl x
      | Inr choices \<Rightarrow> py_item0 choices)"

text \<open>Lines 150 to 153.\<close>

definition extract_reply :: "json \<Rightarrow> exn + json" where
  "extract_reply j =
     (case first_choice j of
        Inl x \<Rightarrow> Inl x
      | Inr choice \<Rightarrow>
     (case py_get choice ''message'' (JObj []) of
        Inl x \<Rightarrow> Inl x
      | Inr msg \<Rightarrow>
     (case py_get msg ''content'' (JStr []) of
        Inl x \<Rightarrow> Inl x
      | Inr assistant_text \<Rightarrow>
          if py_not assistant_text then
            (case first_choice j of
               Inl x \<Rightarrow> Inl x
             | Inr choice' \<Rightarrow>
            (case py_get choice' ''text'' (JStr []) of
               Inl x \<Rightarrow> Inl x
             | Inr t \<Rightarrow> Inr (py_or t (JStr ''Sorry, the AI returned an empty response.''))))
          else Inr assistant_text)))"

text \<open>The body of the \<^verbatim>\<open>try\<close>, lines 146 to 153.\<close>

definition try_completion :: "exchange \<Rightarrow> exn + json" where
  "try_completion x =
     (case x of
        Post_raised m \<Rightarrow> Inl (RequestFailed m)
      | Status_raised m \<Rightarrow> Inl (RequestFailed m)
      | Json_raised m \<Rightarrow> Inl (RequestFailed m)
      | Parsed j \<Rightarrow> extract_reply j)"

text \<open>The \<^verbatim>\<open>try\<close> with its \<^verbatim>\<open>except Exception as e\<close>, lines 145 to 155.\<close>

definition completion :: "exchange \<Rightarrow> json" where
  "completion x =
     (case try_completion x of
        Inl e \<Rightarrow> JStr (''Sorry, AI service error: '' @ str_exn e)
      | Inr assistant_text \<Rightarrow> assistant_text)"

text \<open>
  What one request meets outside the process: the clock at the two inserts, and the
  completion endpoint, which answers the posted message list (model name, token limit,
  temperature and headers are constants of the handler).
\<close>

record io =
  now_user :: nat
  now_reply :: nat
  endpoint :: "message list \<Rightarrow> exchange"

text \<open>
  What a request leaves behind: the response, the store, and the message lists posted to
  the completion endpoint (none or one).
\<close>

record outcome =
  resp :: response
  store :: db
  posted :: "message list list"

definition raised :: "db \<Rightarrow> outcome" where
  "raised d = \<lparr>resp = Internal_server_error, store = d, posted = []\<rparr>"

text \<open>
  Lines 107 to 161, for a request that passed the check of line 104: \<open>pid\<close> is the
  patient identifier as the \<open>patient_id\<close> column holds it. The reply is bound as a
  parameter of the second insert (line 158), outside the \<^verbatim>\<open>try\<close>: when the driver cannot
  bind it, the exception leaves the handler after the user turn was committed.
\<close>

definition save_and_reply :: "env \<Rightarrow> io \<Rightarrow> db \<Rightarrow> sqlval \<Rightarrow> string \<Rightarrow> outcome" where
  "save_and_reply e w d pid user_message =
     (let d1 = insert_chat d (now_user w) pid ''user'' (SText user_message);
          messages = conversation d1 pid user_message;
          no_key = (api_key e = None \<or> api_key e = Some []);
          assistant_text =
            (if no_key then
               JStr ''AI key not configured on server. Ask admin to set GROQ_API_KEY env variable.''
             else completion (endpoint w messages));
          sent = (if no_key then [] else [messages])
      in case bind_param assistant_text of
           None \<Rightarrow> \<lparr>resp = Internal_server_error, store = d1, posted = sent\<rparr>
         | Some v \<Rightarrow>
             \<lparr>resp = Reply assistant_text,
              store = insert_chat d1 (now_reply w) pid ''assistant'' (text_affinity v),
              posted = sent\<rparr>)"

text \<open>
  The handler. \<open>body\<close> is what \<^verbatim>\<open>request.get_json()\<close> returned. An exception that leaves
  the handler is the framework's 500 response; the store keeps what was committed before.
\<close>

definition api_send_message :: "env \<Rightarrow> io \<Rightarrow> db \<Rightarrow> json \<Rightarrow> outcome" where
  "api_send_message e w d body =
     (let data = py_or body (JObj []) in
      case py_get data ''patient_id'' JNull of
        Inl x \<Rightarrow> raised d
      | Inr patient_id \<Rightarrow>
     (case py_get data ''message'' JNull of
        Inl x \<Rightarrow> raised d
      | Inr m \<Rightarrow>
     (case py_strip (py_or m (JStr [])) of
        Inl x \<Rightarrow> raised d
      | Inr user_message \<Rightarrow>
          if py_not patient_id \<or> user_message = [] then
            \<lparr>resp = Invalid_input, store = d, posted = []\<rparr>
          else
            (case bind_param patient_id of
               None \<Rightarrow> raised d
             | Some bound \<Rightarrow>
                 save_and_reply e w d (integer_affinity (numeric e) bound) user_message))))"

text \<open>A sequence of requests, each with what it meets outside, run one after the other.\<close>

fun run_calls :: "env \<Rightarrow> (io \<times> json) list \<Rightarrow> db \<Rightarrow> response list \<times> db" where
  "run_calls e [] d = ([], d)"
| "run_calls e (c # cs) d =
     (let out = api_send_message e (fst c) d (snd c);
          rest = run_calls e cs (store out)
      in (resp out # fst rest, snd rest))"

section \<open>Requests, as the specification speaks of them\<close>

text \<open>A field of the request's JSON object.\<close>

definition field :: "json \<Rightarrow> string \<Rightarrow> json option" where
  "field body k = (case body of JObj kvs \<Rightarrow> map_of kvs k | _ \<Rightarrow> None)"

text \<open>The message of a request after trimming, empty when the request carries no string.\<close>

definition user_text :: "json \<Rightarrow> string" where
  "user_text body = (case field body ''message'' of Some (JStr m) \<Rightarrow> strip m | _ \<Rightarrow> [])"

text \<open>
  A valid request for patient \<open>p\<close>: a JSON object whose \<open>patient_id\<close> is the integer \<open>p\<close>,
  not zero and within 64 bits, and whose \<open>message\<close> is a string that is not blank.
\<close>

definition valid_request :: "int \<Rightarrow> json \<Rightarrow> bool" where
  "valid_request p body =
     (field body ''patient_id'' = Some (JInt p) \<and> p \<noteq> 0 \<and> - (2 ^ 63) \<le> p \<and> p < 2 ^ 63
      \<and> user_text body \<noteq> [])"

text \<open>The store once the user turn of a valid request is saved, and the list then assembled.\<close>

definition with_user_turn :: "io \<Rightarrow> db \<Rightarrow> int \<Rightarrow> json \<Rightarrow> db" where
  "with_user_turn w d p body = insert_chat d (now_user w) (SInt p) ''user'' (SText (user_text body))"

definition request_messages :: "io \<Rightarrow> db \<Rightarrow> int \<Rightarrow> json \<Rightarrow> message list" where
  "request_messages w d p body = conversation (with_user_turn w d p body) (SInt p) (user_text body)"

text \<open>What a TEXT column holds for a Python value that the driver can bind.\<close>

definition as_stored :: "json \<Rightarrow> sqlval" where
  "as_stored t = (case bind_param t of Some v \<Rightarrow> text_affinity v | None \<Rightarrow> SNull)"

text \<open>
  A request is rejected, in Python's terms: the body is a JSON object or false, its message
  is a string or false or absent, and the patient identifier is absent or false, or the
  message is absent, false or blank. "False" is Python's truth test: \<^verbatim>\<open>None\<close>, \<^verbatim>\<open>False\<close>,
  \<open>0\<close>, the empty string, the empty list and the empty dict.
\<close>

definition absent_or_false :: "json option \<Rightarrow> bool" where
  "absent_or_false v = (case v of None \<Rightarrow> True | Some x \<Rightarrow> py_not x)"

definition blank_string :: "json option \<Rightarrow> bool" where
  "blank_string v = (case v of Some (JStr s) \<Rightarrow> strip s = [] | _ \<Rightarrow> False)"

definition string_or_false :: "json option \<Rightarrow> bool" where
  "string_or_false v = (case v of Some (JStr s) \<Rightarrow> True | _ \<Rightarrow> absent_or_false v)"

definition object_or_false :: "json \<Rightarrow> bool" where
  "object_or_false body = (case body of JObj kvs \<Rightarrow> True | _ \<Rightarrow> py_not body)"

definition rejected :: "json \<Rightarrow> bool" where
  "rejected body =
     (object_or_false body \<and> string_or_false (field body ''message'')
      \<and> (absent_or_false (field body ''patient_id'') \<or> absent_or_false (field body ''message'')
           \<or> blank_string (field body ''message'')))"

text \<open>
  The specification's wording of the same condition: the patient identifier is missing or
  empty, or the message is missing, or empty after trimming. Missing is absent or null;
  empty is the empty string, array or object.
\<close>

definition missing_or_empty :: "json option \<Rightarrow> bool" where
  "missing_or_empty v =
     (v = None \<or> v = Some JNull \<or> v = Some (JStr []) \<or> v = Some (JArr []) \<or> v = Some (JObj []))"

definition spec_invalid :: "json \<Rightarrow> bool" where
  "spec_invalid body =
     (missing_or_empty (field body ''patient_id'') \<or> missing_or_empty (field body ''message'')
      \<or> blank_string (field body ''message''))"

text \<open>\<^verbatim>\<open>not GROQ_API_KEY\<close>: no credential is configured.\<close>

definition key_missing :: "env \<Rightarrow> bool" where
  "key_missing e = (api_key e = None \<or> api_key e = Some [])"

text \<open>
  The specification's conversation, section 4.1, for a store \<open>d\<close> as it stands before the
  request: the system message, the 40 most recent prior turns of the patient in ascending
  order, the new utterance.
\<close>

definition new_message :: "string \<Rightarrow> message" where
  "new_message m = \<lparr>role = ''user'', content = JStr m\<rparr>"

definition spec_conversation :: "db \<Rightarrow> sqlval \<Rightarrow> string \<Rightarrow> message list" where
  "spec_conversation d pid new =
     (let prior = chats_by_created_at d pid
      in system_msg # map row_message (drop (length prior - 40) prior) @ [new_message new])"

text \<open>
  Fields of a response body that has the expected shape: a text field is a string, taken
  as empty when it is absent or null; an object field is an object, taken as empty when it
  is absent.
\<close>

definition text_field :: "(string \<times> json) list \<Rightarrow> string \<Rightarrow> string option" where
  "text_field kvs k =
     (case map_of kvs k of
        None \<Rightarrow> Some []
      | Some JNull \<Rightarrow> Some []
      | Some (JStr s) \<Rightarrow> Some s
      | Some v \<Rightarrow> None)"

definition object_field :: "(string \<times> json) list \<Rightarrow> string \<Rightarrow> (string \<times> json) list option" where
  "object_field kvs k =
     (case map_of kvs k of
        None \<Rightarrow> Some []
      | Some (JObj fs) \<Rightarrow> Some fs
      | Some v \<Rightarrow> None)"


text \<open>
  The response body of the specification, section 6: \<open>choices\<close> is an array whose first
  element is an object, with a \<open>message\<close> object (or none) and \<open>content\<close> and \<open>text\<close> that
  are strings, absent or null.
\<close>

definition expected_shape :: "json \<Rightarrow> bool" where
  "expected_shape j =
     (case j of
        JObj obj \<Rightarrow>
          (case map_of obj ''choices'' of
             Some (JArr (JObj choice # others)) \<Rightarrow>
               (case object_field choice ''message'' of
                  Some msg \<Rightarrow> text_field msg ''content'' \<noteq> None \<and> text_field choice ''text'' \<noteq> None
                | None \<Rightarrow> False)
           | _ \<Rightarrow> False)
      | _ \<Rightarrow> False)"

text \<open>
  A failure of the completion call in the specification's words: a transport error or a
  timeout (no response), a status that is not 2xx, or a malformed body (not JSON, or not
  of the shape above).
\<close>

definition spec_failure :: "http_result \<Rightarrow> bool" where
  "spec_failure h =
     (case h of
        No_response m \<Rightarrow> True
      | Response st err b \<Rightarrow>
          st < 200 \<or> 300 \<le> st
          \<or> (case b of Not_json m \<Rightarrow> True | Json j \<Rightarrow> expected_shape j = False))"







definition role_and_content :: "chat_row \<Rightarrow> sqlval \<times> sqlval" where
  "role_and_content r = (c_role r, c_content r)"


text \<open>Every chat row names a patient row: the foreign key that the schema declares.\<close>

definition references_hold :: "db \<Rightarrow> bool" where
  "references_hold d = list_all (\<lambda>c. list_ex (\<lambda>p. c_patient_id c = SInt (p_id p)) (patients d)) (chats d)"

section \<open>Scenarios\<close>

text \<open>
  Concrete environments, stores and requests for the statements below. \<open>clinic\<close> holds the
  patient Jane Doe, identifier 1, and no chat turn; \<open>clinic_with n\<close> holds \<open>n\<close> turns of
  hers besides, stored one second apart.
\<close>

definition ask :: "int \<Rightarrow> string \<Rightarrow> json" where
  "ask p m = JObj [(''patient_id'', JInt p), (''message'', JStr m)]"

definition keyed :: env where
  "keyed = \<lparr>api_key = GROQ_API_KEY (Some ''gsk-test'') None, numeric = integer_literal\<rparr>"

definition unkeyed :: env where
  "unkeyed = \<lparr>api_key = GROQ_API_KEY None None, numeric = integer_literal\<rparr>"

definition clinic :: db where
  "clinic = insert_patient empty_db 0 ''Jane Doe'' SNull SNull SNull"

definition past_turn :: "nat \<Rightarrow> chat_row" where
  "past_turn i =
     \<lparr>c_id = int i, c_patient_id = SInt 1,
      c_role = SText (if odd i then ''user'' else ''assistant''),
      c_content = SText (CHR ''t'' # dec_nat i), c_created_at = i\<rparr>"

definition clinic_with :: "nat \<Rightarrow> db" where
  "clinic_with n = clinic\<lparr>chats := map past_turn [1..<Suc n], chats_seq := int n\<rparr>"

definition timing_out :: io where
  "timing_out = \<lparr>now_user = 100, now_reply = 130, endpoint = (\<lambda>ms. Post_raised ''timed out'')\<rparr>"

definition answering :: "string \<Rightarrow> io" where
  "answering t =
     \<lparr>now_user = 200, now_reply = 201,
      endpoint = (\<lambda>ms. Parsed (JObj [(''choices'', JArr [JObj [(''message'', JObj [(''content'', JStr t)])]])]))\<rparr>"



definition array_reply :: http_result where
  "array_reply =
     Response 200 []
       (Json (JObj [(''choices'', JArr [JObj [(''message'', JObj [(''content'', JArr [JInt 1])])]])]))"

definition array_content :: io where
  "array_content = \<lparr>now_user = 400, now_reply = 401, endpoint = (\<lambda>ms. requests_calls array_reply)\<rparr>"

definition redirect_reply :: http_result where
  "redirect_reply =
     Response 302 []
       (Json (JObj [(''choices'', JArr [JObj [(''message'', JObj [(''content'', JStr ''Moved'')])]])]))"

definition redirected :: io where
  "redirected = \<lparr>now_user = 500, now_reply = 501, endpoint = (\<lambda>ms. requests_calls redirect_reply)\<rparr>"




definition after_timeout :: db where
  "after_timeout = store (api_send_message keyed timing_out (clinic_with 40) (ask 1 ''first''))"

section \<open>Patient creation\<close>

text \<open>
  C9. A creation submission (a POST of the login form) whose name is blank after trimming
  whitespace, or is missing, creates no patient row: the login form is rendered again with
  the error "Name is required" and the stored state is the one before the submission.
\<close>

theorem login_blank_name_creates_nothing:
  assumes "form_get form ''name'' = []"
  shows "login e now d POST form = (Login_page (Some ''Name is required''), d)"
  using assms by (simp add: login_def Let_def)

theorem login_blank_name_witness:
  "form_get [(''name'', ''  ''), (''age'', ''41'')] ''name'' = []
   \<and> login unkeyed 7 empty_db POST [(''name'', ''  ''), (''age'', ''41'')]
       = (Login_page (Some ''Name is required''), empty_db)"
proof -
  have blank: "form_get [(''name'', ''  ''), (''age'', ''41'')] ''name'' = []"
    by (simp add: form_get_def strip_def isspace_def)
  show ?thesis
    using blank login_blank_name_creates_nothing [OF blank] by simp
qed

section \<open>Validation of a message request\<close>

lemma py_get_data:
  assumes "object_or_false body"
  shows "py_get (py_or body (JObj [])) k JNull = Inr (case field body k of None \<Rightarrow> JNull | Some v \<Rightarrow> v)"
  using assms by (cases body) (auto simp: object_or_false_def py_or_def field_def)

lemma py_get_data_raises:
  assumes "\<not> object_or_false body"
  shows "\<exists>x. py_get (py_or body (JObj [])) k JNull = Inl x"
  using assms by (cases body) (auto simp: object_or_false_def py_or_def)

lemma py_strip_message:
  assumes "string_or_false v"
  shows "py_strip (py_or (case v of None \<Rightarrow> JNull | Some x \<Rightarrow> x) (JStr [])) =
           Inr (if absent_or_false v then [] else case v of Some (JStr s) \<Rightarrow> strip s | _ \<Rightarrow> [])"
proof (cases v)
  case None
  then show ?thesis
    by (simp add: absent_or_false_def py_or_def strip_def)
next
  case (Some x)
  with assms show ?thesis
    by (cases x) (auto simp: string_or_false_def absent_or_false_def py_or_def strip_def)
qed

lemma py_strip_message_raises:
  assumes "\<not> string_or_false v"
  shows "\<exists>x. py_strip (py_or (case v of None \<Rightarrow> JNull | Some x \<Rightarrow> x) (JStr [])) = Inl x"
proof (cases v)
  case None
  with assms show ?thesis
    by (simp add: string_or_false_def absent_or_false_def)
next
  case (Some x)
  with assms show ?thesis
    by (cases x) (auto simp: string_or_false_def absent_or_false_def py_or_def)
qed

lemma resp_raised: "resp (raised d) \<noteq> Invalid_input"
  by (simp add: raised_def)

lemma resp_save_and_reply: "resp (save_and_reply e w d pid um) \<noteq> Invalid_input"
  by (simp add: save_and_reply_def Let_def split: option.splits)

lemma rejected_400:
  assumes "rejected body"
  shows "api_send_message e w d body = \<lparr>resp = Invalid_input, store = d, posted = []\<rparr>"
proof -
  from assms have ob: "object_or_false body" and sf: "string_or_false (field body ''message'')"
    and either: "absent_or_false (field body ''patient_id'') \<or> absent_or_false (field body ''message'')
           \<or> blank_string (field body ''message'')"
    by (auto simp: rejected_def)
  show ?thesis
    using either
    by (auto simp: api_send_message_def Let_def py_get_data [OF ob] py_strip_message [OF sf]
        absent_or_false_def blank_string_def split: option.splits json.splits)
qed

lemma not_rejected_not_400:
  assumes "\<not> rejected body"
  shows "resp (api_send_message e w d body) \<noteq> Invalid_input"
proof (cases "object_or_false body")
  case False
  from py_get_data_raises [OF False]
  obtain x where "py_get (py_or body (JObj [])) ''patient_id'' JNull = Inl x"
    by blast
  then show ?thesis
    by (simp add: api_send_message_def Let_def resp_raised)
next
  case ob: True
  show ?thesis
  proof (cases "string_or_false (field body ''message'')")
    case False
    from py_strip_message_raises [OF False]
    obtain x where
      "py_strip (py_or (case field body ''message'' of None \<Rightarrow> JNull | Some x \<Rightarrow> x) (JStr [])) = Inl x"
      by blast
    then show ?thesis
      by (simp add: api_send_message_def Let_def py_get_data [OF ob] resp_raised)
  next
    case sf: True
    from assms ob sf have "\<not> absent_or_false (field body ''patient_id'')"
      "\<not> absent_or_false (field body ''message'')" "\<not> blank_string (field body ''message'')"
      by (auto simp: rejected_def)
    with sf show ?thesis
      by (auto simp: api_send_message_def Let_def py_get_data [OF ob] py_strip_message [OF sf]
          absent_or_false_def blank_string_def string_or_false_def resp_raised resp_save_and_reply
          split: option.splits json.splits)
  qed
qed

text \<open>
  Two requests that end in an exception, not in a 400 response, although the patient
  identifier is missing: a body that is an array (\<^verbatim>\<open>data.get\<close> of line 102 raises), and a
  message that is a number (\<^verbatim>\<open>.strip()\<close> of line 103 raises before the check of line 104).
\<close>

lemma array_body_raises:
  "api_send_message keyed timing_out clinic (JArr [JInt 1]) = raised clinic
   \<and> spec_invalid (JArr [JInt 1])"
  by code_simp

lemma number_message_raises:
  "api_send_message keyed timing_out clinic (JObj [(''message'', JInt 5)]) = raised clinic
   \<and> spec_invalid (JObj [(''message'', JInt 5)])"
  by code_simp

text \<open>
  C4, as stated: the 400 response is given if and only if the patient identifier is
  missing or empty or the message is empty after trimming. It fails for the patient
  identifier 0, which is present and not empty: the request is answered with 400 all the
  same, because line 104 tests the identifier with Python's \<^verbatim>\<open>not\<close>.
\<close>

theorem zero_patient_id_rejected:
  "resp (api_send_message keyed timing_out clinic (ask 0 ''I have a headache'')) = Invalid_input
   \<and> \<not> spec_invalid (ask 0 ''I have a headache'')"
  by code_simp

text \<open>
  C4, amended. The handler answers 400 if and only if the request is rejected in Python's
  terms: the parsed body is a JSON object or false, its message is a string, false or
  absent, and either the patient identifier is absent or false (null, \<open>false\<close>, 0, an empty
  string, array or object) or the message is absent, false, or blank after trimming. A
  rejected request leaves the store unchanged and posts nothing. (A body that is true and
  no object, or a message that is true and no string, ends in an exception instead.)
\<close>

theorem invalid_input_iff_rejected:
  "(resp (api_send_message e w d body) = Invalid_input \<longleftrightarrow> rejected body)
   \<and> (rejected body \<longrightarrow> api_send_message e w d body = \<lparr>resp = Invalid_input, store = d, posted = []\<rparr>)"
  using rejected_400 [of body e w d] not_rejected_not_400 [of body e w d] by auto

theorem invalid_input_iff_rejected_witness:
  "rejected (ask 1 ''   '')
   \<and> api_send_message keyed timing_out clinic (ask 1 ''   '') =
       \<lparr>resp = Invalid_input, store = clinic, posted = []\<rparr>"
proof -
  have r: "rejected (ask 1 ''   '')"
    by code_simp
  show ?thesis
    using r invalid_input_iff_rejected [of keyed timing_out clinic "ask 1 ''   ''"] by simp
qed

section \<open>A valid request\<close>

lemma api_send_message_valid:
  assumes "valid_request p body"
  shows "api_send_message e w d body = save_and_reply e w d (SInt p) (user_text body)"
proof -
  from assms obtain kvs where body: "body = JObj kvs"
    by (cases body) (auto simp: valid_request_def field_def)
  from assms body have pid: "map_of kvs ''patient_id'' = Some (JInt p)" and p: "p \<noteq> 0"
    and bounds: "- (2 ^ 63) \<le> p" "p < 2 ^ 63" and given: "user_text body \<noteq> []"
    by (auto simp: valid_request_def field_def)
  from given body obtain m where m: "map_of kvs ''message'' = Some (JStr m)"
    and sm: "strip m \<noteq> []" and ut: "user_text body = strip m"
    by (auto simp: user_text_def field_def split: option.splits json.splits)
  from pid have ne: "kvs \<noteq> []" by auto
  from sm have mne: "m \<noteq> []" by (auto simp: strip_def)
  show ?thesis
    using pid p bounds m sm ne mne ut
    by (simp add: api_send_message_def body py_or_def Let_def)
qed


lemma as_stored_string: "as_stored (JStr s) = SText s"
  by (simp add: as_stored_def)



lemma posted_valid:
  assumes "valid_request p body"
  shows "posted (api_send_message e w d body) =
           (if key_missing e then [] else [request_messages w d p body])"
  by (simp add: api_send_message_valid [OF assms] save_and_reply_def Let_def key_missing_def
      request_messages_def with_user_turn_def split: option.splits)

section \<open>The conversation sent to the completion endpoint\<close>

text \<open>
  C1 fails on the code. Jane Doe has 41 stored turns, \<open>t1\<close> to \<open>t41\<close>, and sends "new".
  The query of line 114 orders by \<open>created_at\<close> ascending and keeps the first 40 rows, so
  the posted list carries the 40 oldest turns, \<open>t1\<close> to \<open>t40\<close>; the specification's list
  carries the 40 most recent ones, \<open>t2\<close> to \<open>t41\<close>.
\<close>

theorem oldest_forty_turns_sent:
  "posted (api_send_message keyed timing_out (clinic_with 41) (ask 1 ''new'')) =
     [system_msg # map row_message (take 40 (chats (clinic_with 41))) @ [new_message ''new'']]
   \<and> spec_conversation (clinic_with 41) (SInt 1) ''new'' =
       system_msg # map row_message (drop 1 (chats (clinic_with 41))) @ [new_message ''new'']
   \<and> posted (api_send_message keyed timing_out (clinic_with 41) (ask 1 ''new'')) \<noteq>
       [spec_conversation (clinic_with 41) (SInt 1) ''new'']"
  by code_simp

text \<open>
  C2 fails on the code. Jane Doe has no stored turn and sends "I have a headache". The
  user turn is saved (line 110) before the history is read (line 114), so the history
  already holds it, and line 129 appends it once more: the posted list carries the
  utterance twice, and its prior-turns portion is a turn stored by this very request.
\<close>

theorem new_utterance_sent_twice:
  "posted (api_send_message keyed timing_out clinic (ask 1 ''I have a headache'')) =
     [[system_msg, new_message ''I have a headache'', new_message ''I have a headache'']]
   \<and> chats_of clinic (SInt 1) = []
   \<and> spec_conversation clinic (SInt 1) ''I have a headache'' =
       [system_msg, new_message ''I have a headache'']"
  by code_simp

section \<open>The foreign key\<close>

lemma references_kept_by_login:
  assumes "references_hold d"
  shows "references_hold (snd (login e now d method form))"
  using assms
  by (auto simp: login_def Let_def references_hold_def insert_patient_def list_all_iff list_ex_iff)

lemma references_kept_for_known_patient:
  assumes "references_hold d" and "list_ex (\<lambda>x. p_id x = p) (patients d)"
    and "valid_request p body"
  shows "references_hold (store (api_send_message e w d body))"
  using assms(1,2)
  by (auto simp: api_send_message_valid [OF assms(3)] save_and_reply_def Let_def references_hold_def
      insert_chat_def list_all_iff list_ex_iff split: option.splits)

text \<open>
  C3 fails on the code. On the empty store, a request for patient 999 is answered with a
  reply and leaves two chat rows that name patient 999, while the patients table is empty:
  \<open>api_send_message\<close> never looks the patient up, where \<open>dashboard\<close> and \<open>chat\<close> answer
  "Patient not found" for the same identifier.
\<close>

theorem turn_stored_for_unknown_patient:
  "resp (api_send_message unkeyed timing_out empty_db (ask 999 ''hi'')) =
     Reply (JStr ''AI key not configured on server. Ask admin to set GROQ_API_KEY env variable.'')
   \<and> map c_patient_id (chats (store (api_send_message unkeyed timing_out empty_db (ask 999 ''hi'')))) =
       [SInt 999, SInt 999]
   \<and> patients (store (api_send_message unkeyed timing_out empty_db (ask 999 ''hi''))) = []
   \<and> references_hold empty_db
   \<and> \<not> references_hold (store (api_send_message unkeyed timing_out empty_db (ask 999 ''hi'')))
   \<and> dashboard empty_db 999 = Patient_not_found
   \<and> chat empty_db 999 = Patient_not_found"
  by code_simp

section \<open>The completion client\<close>

text \<open>
  C6. With no credential configured, a valid request is answered with the fixed advisory
  string; nothing is posted to the completion endpoint and the outcome does not depend on
  it; the store gains exactly two chat rows, the user turn with the trimmed message and an
  assistant turn with the advisory, and is otherwise as before.
\<close>

theorem missing_key_advisory:
  assumes "valid_request p body" and "key_missing e"
  shows "api_send_message e w d body =
           \<lparr>resp = Reply (JStr ''AI key not configured on server. Ask admin to set GROQ_API_KEY env variable.''),
            store = d\<lparr>chats := chats d @
                [\<lparr>c_id = chats_seq d + 1, c_patient_id = SInt p, c_role = SText ''user'',
                  c_content = SText (user_text body), c_created_at = now_user w\<rparr>,
                 \<lparr>c_id = chats_seq d + 2, c_patient_id = SInt p, c_role = SText ''assistant'',
                  c_content = SText ''AI key not configured on server. Ask admin to set GROQ_API_KEY env variable.'',
                  c_created_at = now_reply w\<rparr>],
              chats_seq := chats_seq d + 2\<rparr>,
            posted = []\<rparr>"
  using assms(2)
  by (auto simp: api_send_message_valid [OF assms(1)] save_and_reply_def insert_chat_def key_missing_def)

theorem missing_key_advisory_witness:
  "api_send_message unkeyed timing_out clinic (ask 1 '' I have a headache '') =
     \<lparr>resp = Reply (JStr ''AI key not configured on server. Ask admin to set GROQ_API_KEY env variable.''),
      store = clinic\<lparr>chats :=
          [\<lparr>c_id = 1, c_patient_id = SInt 1, c_role = SText ''user'',
            c_content = SText ''I have a headache'', c_created_at = 100\<rparr>,
           \<lparr>c_id = 2, c_patient_id = SInt 1, c_role = SText ''assistant'',
            c_content = SText ''AI key not configured on server. Ask admin to set GROQ_API_KEY env variable.'',
            c_created_at = 130\<rparr>],
        chats_seq := 2\<rparr>,
      posted = []\<rparr>"
proof -
  have valid: "valid_request 1 (ask 1 '' I have a headache '')"
    by code_simp
  have nokey: "key_missing unkeyed"
    by code_simp
  have given: "user_text (ask 1 '' I have a headache '') = ''I have a headache''"
    by code_simp
  have before: "chats clinic = [] \<and> chats_seq clinic = 0"
    by code_simp
  have clock: "now_user timing_out = 100 \<and> now_reply timing_out = 130"
    by (simp add: timing_out_def)
  show ?thesis
    using missing_key_advisory [OF valid nokey, of timing_out clinic] given before clock by simp
qed





text \<open>
  A status that is not 2xx and not an error status to \<^verbatim>\<open>raise_for_status\<close>: the body
  of a 302 response is read like any other, and its content is the reply.
\<close>

lemma redirect_status_not_advised:
  "spec_failure redirect_reply
   \<and> api_send_message keyed redirected clinic (ask 1 ''I have a headache'') =
       \<lparr>resp = Reply (JStr ''Moved''),
        store = clinic\<lparr>chats :=
            [\<lparr>c_id = 1, c_patient_id = SInt 1, c_role = SText ''user'',
              c_content = SText ''I have a headache'', c_created_at = 500\<rparr>,
             \<lparr>c_id = 2, c_patient_id = SInt 1, c_role = SText ''assistant'',
              c_content = SText ''Moved'', c_created_at = 501\<rparr>],
          chats_seq := 2\<rparr>,
        posted = [[system_msg, new_message ''I have a headache'', new_message ''I have a headache'']]\<rparr>"
  by code_simp

text \<open>
  C7, as stated: every failure of the completion call, a malformed response body among
  them, is caught and answered with an advisory reply, and no exception leaves the
  handler. It fails for a 200 response whose first choice carries an array as content:
  nothing raises in the \<^verbatim>\<open>try\<close>, the array is taken as the reply, and the insert of line
  158 cannot bind it. The exception leaves the handler (a 500 response) and the store
  holds the user turn alone.
\<close>

theorem array_content_propagates:
  "spec_failure array_reply
   \<and> resp (api_send_message keyed array_content clinic (ask 1 ''I have a headache'')) = Internal_server_error
   \<and> chats (store (api_send_message keyed array_content clinic (ask 1 ''I have a headache''))) =
       [\<lparr>c_id = 1, c_patient_id = SInt 1, c_role = SText ''user'',
         c_content = SText ''I have a headache'', c_created_at = 400\<rparr>]"
  by code_simp



text \<open>
  The \<^verbatim>\<open>try\<close> does not cover line 158. A parsed body of the expected shape whose content
  the driver cannot bind (an array, an object, an integer beyond 64 bits) raises nothing
  in the \<^verbatim>\<open>try\<close>; the second insert raises, after the user turn was committed.
\<close>

lemma unbindable_reply_raises:
  assumes "valid_request p body" and "\<not> key_missing e"
    and "endpoint w (request_messages w d p body) = Parsed j"
    and "extract_reply j = Inr t" and "bind_param t = None"
  shows "api_send_message e w d body =
           \<lparr>resp = Internal_server_error, store = with_user_turn w d p body,
            posted = [request_messages w d p body]\<rparr>"
proof -
  have "completion (endpoint w (conversation
          (insert_chat d (now_user w) (SInt p) ''user'' (SText (user_text body)))
          (SInt p) (user_text body))) = t"
    using assms(3,4)
    by (simp add: request_messages_def with_user_turn_def completion_def try_completion_def)
  then show ?thesis
    using assms(2,5)
    by (auto simp: api_send_message_valid [OF assms(1)] save_and_reply_def key_missing_def Let_def
        request_messages_def with_user_turn_def)
qed

lemma extract_reply_shape:
  assumes "map_of obj ''choices'' = Some (JArr (JObj choice # others))"
    and "object_field choice ''message'' = Some msg"
    and "text_field msg ''content'' = Some c"
    and "text_field choice ''text'' = Some t"
  shows "extract_reply (JObj obj) =
           Inr (JStr (if c \<noteq> [] then c else if t \<noteq> [] then t
                      else ''Sorry, the AI returned an empty response.''))"
  using assms
  by (auto simp: extract_reply_def first_choice_def object_field_def text_field_def py_or_def
      split: option.splits json.splits)

text \<open>
  C8. Let a valid request meet a configured credential and a parsed response body whose
  \<open>choices\<close> is an array with an object first, that object's \<open>message\<close> an object (or
  absent), and \<open>content\<close> and \<open>text\<close> strings (empty when absent or null). Then the reply
  is the content of the first choice's message; if that is empty, the first choice's
  \<open>text\<close>; if both are empty, "Sorry, the AI returned an empty response."
\<close>

theorem reply_fallback_order:
  assumes "valid_request p body" and "\<not> key_missing e"
    and "endpoint w (request_messages w d p body) = Parsed (JObj obj)"
    and "map_of obj ''choices'' = Some (JArr (JObj choice # others))"
    and "object_field choice ''message'' = Some msg"
    and "text_field msg ''content'' = Some c"
    and "text_field choice ''text'' = Some t"
  shows "resp (api_send_message e w d body) =
           Reply (JStr (if c \<noteq> [] then c else if t \<noteq> [] then t
                        else ''Sorry, the AI returned an empty response.''))"
proof -
  note shape = extract_reply_shape [OF assms(4-7)]
  have "completion (endpoint w (conversation
          (insert_chat d (now_user w) (SInt p) ''user'' (SText (user_text body)))
          (SInt p) (user_text body))) =
        JStr (if c \<noteq> [] then c else if t \<noteq> [] then t
              else ''Sorry, the AI returned an empty response.'')"
    using assms(3) shape
    by (simp add: request_messages_def with_user_turn_def completion_def try_completion_def)
  then show ?thesis
    using assms(2)
    by (auto simp: api_send_message_valid [OF assms(1)] save_and_reply_def key_missing_def Let_def)
qed

theorem reply_fallback_order_witness:
  "resp (api_send_message keyed (answering ''Try resting and hydration.'') clinic (ask 1 ''I have a headache'')) =
     Reply (JStr ''Try resting and hydration.'')"
proof -
  have valid: "valid_request 1 (ask 1 ''I have a headache'')"
    by code_simp
  have key: "\<not> key_missing keyed"
    by code_simp
  have answer: "endpoint (answering ''Try resting and hydration.'')
       (request_messages (answering ''Try resting and hydration.'') clinic 1 (ask 1 ''I have a headache'')) =
     Parsed (JObj [(''choices'', JArr [JObj [(''message'', JObj [(''content'', JStr ''Try resting and hydration.'')])]])])"
    by (simp add: answering_def)
  have choices: "map_of [(''choices'', JArr [JObj [(''message'', JObj [(''content'', JStr ''Try resting and hydration.'')])]])] ''choices'' =
     Some (JArr (JObj [(''message'', JObj [(''content'', JStr ''Try resting and hydration.'')])] # []))"
    by simp
  have msg: "object_field [(''message'', JObj [(''content'', JStr ''Try resting and hydration.'')])] ''message'' =
     Some [(''content'', JStr ''Try resting and hydration.'')]"
    by (simp add: object_field_def)
  have c: "text_field [(''content'', JStr ''Try resting and hydration.'')] ''content'' =
     Some ''Try resting and hydration.''"
    by (simp add: text_field_def)
  have t: "text_field [(''message'', JObj [(''content'', JStr ''Try resting and hydration.'')])] ''text'' = Some []"
    by (simp add: text_field_def)
  show ?thesis
    using reply_fallback_order [OF valid key answer choices msg c t] by simp
qed


section \<open>Two turns for each answered request\<close>





lemma history_entry_rows:
  "map history_entry rows = map (\<lambda>r. (c_role r, c_content r, c_created_at r)) rows"
  by (simp add: history_entry_def)


lemma chat_view_in_stored_order:
  assumes "find (\<lambda>x. p_id x = p) (patients d) = Some pt"
    and "sorted (map c_created_at (chats_of d (SInt p)))"
  shows "chat d p =
           Chat_page pt (map (\<lambda>r. (c_role r, c_content r, c_created_at r)) (chats_of d (SInt p)))"
  using assms by (simp add: chat_def chats_by_created_at_def sort_key_id_if_sorted history_entry_rows)

text \<open>
  C5, as stated: N valid calls for one patient leave exactly 2N turns. It fails for one
  valid call that meets a 200 response whose first choice carries an array as content:
  the call ends in an exception (a 500 response) and leaves one turn, the user's.
\<close>

theorem valid_call_leaves_one_turn:
  "valid_request 1 (ask 1 ''I have a headache'')
   \<and> find (\<lambda>x. p_id x = 1) (patients clinic) = Some (hd (patients clinic))
   \<and> chats clinic = []
   \<and> fst (run_calls keyed [(array_content, ask 1 ''I have a headache'')] clinic) = [Internal_server_error]
   \<and> chats (snd (run_calls keyed [(array_content, ask 1 ''I have a headache'')] clinic)) =
       [\<lparr>c_id = 1, c_patient_id = SInt 1, c_role = SText ''user'',
         c_content = SText ''I have a headache'', c_created_at = 400\<rparr>]"
  by code_simp



section \<open>An error reply in later conversations\<close>

text \<open>
  C10 fails on the code. Jane Doe has 40 stored turns; her request "first" meets a
  timeout. The error text is answered and stored as the assistant turn, the 42nd row of
  hers. Her next request, "second", is answered by the endpoint; the list posted for it
  carries her 40 oldest turns and "second", and the error text is not in it, nor will it
  be in any later one: the query of line 114 keeps the first 40 rows.
\<close>

theorem late_error_turn_never_resent:
  "resp (api_send_message keyed timing_out (clinic_with 40) (ask 1 ''first'')) =
     Reply (JStr ''Sorry, AI service error: timed out'')
   \<and> map role_and_content (drop 40 (chats after_timeout)) =
       [(SText ''user'', SText ''first''),
        (SText ''assistant'', SText ''Sorry, AI service error: timed out'')]
   \<and> posted (api_send_message keyed (answering ''Rest.'') after_timeout (ask 1 ''second'')) =
       [system_msg # map row_message (take 40 (chats after_timeout)) @ [new_message ''second'']]
   \<and> JStr ''Sorry, AI service error: timed out'' \<notin>
        set (map content (concat (posted
          (api_send_message keyed (answering ''Rest.'') after_timeout (ask 1 ''second'')))))"
  by code_simp

end
